theory Spec2Isabelle
  imports Complex_Main
begin

section \<open>Chat items\<close>

text \<open>
  Modelled from the spec: the chat items of the agent framework (\<open>llm.ChatItem\<close>), whose
  declaration is not part of the sources. Section 3 of the specification gives three
  variants: a message with a role, a content and an id, a function call and a function
  call output. The source reads \<open>item.type\<close>, \<open>item.role\<close> and \<open>item.id\<close> only.
\<close>

datatype role = System | User | Assistant

datatype chat_item =
    Message string role string
  | FunctionCall string string string
  | FunctionCallOutput string string string

fun item_id :: "chat_item \<Rightarrow> string" where
  "item_id (Message i r c) = i"
| "item_id (FunctionCall i n a) = i"
| "item_id (FunctionCallOutput i c out) = i"

fun item_type :: "chat_item \<Rightarrow> string" where
  "item_type (Message i r c) = ''message''"
| "item_type (FunctionCall i n a) = ''function_call''"
| "item_type (FunctionCallOutput i c out) = ''function_call_output''"

fun item_role :: "chat_item \<Rightarrow> role option" where
  "item_role (Message i r c) = Some r"
| "item_role (FunctionCall i n a) = None"
| "item_role (FunctionCallOutput i c out) = None"

section \<open>BaseAgent._truncate_chat_ctx\<close>

text \<open>The inner function \<open>_valid_item\<close>; the two flags are the enclosing call's.\<close>

definition valid_item :: "bool \<Rightarrow> bool \<Rightarrow> chat_item \<Rightarrow> bool" where
  "valid_item keep_system_message keep_function_call item =
     (if \<not> keep_system_message \<and> item_type item = ''message'' \<and> item_role item = Some System
      then False
      else if \<not> keep_function_call \<and>
              item_type item \<in> set [''function_call'', ''function_call_output'']
      then False
      else True)"

text \<open>
  The \<open>for item in reversed(items)\<close> loop. The first list is what is left of the reversed
  input, the second is \<open>new_items\<close>. The bound is tested after the append, in every
  iteration, and \<open>break\<close> returns what was collected. \<open>keep_last_n_messages\<close> is a
  Python integer.
\<close>

fun collect_items :: "int \<Rightarrow> bool \<Rightarrow> bool \<Rightarrow> chat_item list \<Rightarrow> chat_item list \<Rightarrow> chat_item list" where
  "collect_items n ks kf [] new_items = new_items"
| "collect_items n ks kf (item # rest) new_items =
     (let new_items' = (if valid_item ks kf item then new_items @ [item] else new_items)
      in if int (length new_items') \<ge> n then new_items'
         else collect_items n ks kf rest new_items')"

text \<open>The \<open>while new_items and new_items[0].type in [...]: new_items.pop(0)\<close> loop.\<close>

fun pop_leading_calls :: "chat_item list \<Rightarrow> chat_item list" where
  "pop_leading_calls [] = []"
| "pop_leading_calls (item # rest) =
     (if item_type item \<in> set [''function_call'', ''function_call_output'']
      then pop_leading_calls rest
      else item # rest)"

definition truncate_chat_ctx :: "chat_item list \<Rightarrow> int \<Rightarrow> bool \<Rightarrow> bool \<Rightarrow> chat_item list" where
  "truncate_chat_ctx items keep_last_n_messages keep_system_message keep_function_call =
     pop_leading_calls
       (rev (collect_items keep_last_n_messages keep_system_message keep_function_call
               (rev items) []))"

text \<open>The call with every optional parameter left at its default: 6, False, False.\<close>

definition truncate_chat_ctx_default :: "chat_item list \<Rightarrow> chat_item list" where
  "truncate_chat_ctx_default items = truncate_chat_ctx items 6 False False"

section \<open>The shared user data and the session\<close>

text \<open>
  Agent objects are shared by reference: the registry, \<open>prev_agent\<close> and the session's
  current agent all point to the same objects. A reference is a number, and the session
  holds the objects.
\<close>

type_synonym agent_ref = nat

text \<open>
  Modelled from the spec: the record \<open>UserData\<close> (imported from \<open>src.models\<close>, which is not
  part of the sources). The fields are those of section 3 of the specification, under the
  names the source uses for them; \<open>order\<close> is a sequence that may be empty, \<open>expense\<close> an
  optional number, \<open>checked_out\<close> a boolean that starts as false. The expense is a Python
  float that is only stored and tested for truth, never computed with; it is a real here.
\<close>

record user_data =
  customer_name :: "string option"
  customer_phone :: "string option"
  reservation_time :: "string option"
  order :: "string list"
  expense :: "real option"
  customer_credit_card :: "string option"
  customer_credit_card_expiry :: "string option"
  customer_credit_card_cvv :: "string option"
  checked_out :: bool
  agents :: "string \<rightharpoonup> agent_ref"
  prev_agent :: "agent_ref option"

text \<open>
  An agent object: the name of its class (what \<open>self.__class__.__name__\<close> reads) and its
  chat context.
\<close>

record agent =
  class_name :: string
  chat_ctx :: "chat_item list"

text \<open>
  The session: the shared user data, the current agent, the agent objects, and the calls
  of \<open>generate_reply\<close> made so far (the \<open>tool_choice\<close> of each).
\<close>

record session =
  userdata :: user_data
  current_agent :: agent_ref
  agent_objs :: "agent_ref \<Rightarrow> agent"
  generated_replies :: "string list"

text \<open>
  What the source takes from outside: \<open>UserData.summarize\<close> (in \<open>src.models\<close>), the text
  Python's formatting gives for a list of strings and for a float inside an f-string, and
  the id the framework generates for a new message.
\<close>

record builtins =
  summarize :: "user_data \<Rightarrow> string"
  str_of_list :: "string list \<Rightarrow> string"
  str_of_float :: "real \<Rightarrow> string"
  new_item_id :: "session \<Rightarrow> string"

text \<open>Python's truth test (\<open>not x\<close>) on an optional string and on an optional float.\<close>

definition truthy_str :: "string option \<Rightarrow> bool" where
  "truthy_str v = (case v of None \<Rightarrow> False | Some t \<Rightarrow> t \<noteq> [])"

definition truthy_float :: "real option \<Rightarrow> bool" where
  "truthy_float v = (case v of None \<Rightarrow> False | Some x \<Rightarrow> x \<noteq> 0)"

text \<open>
  A tool returns a string or a pair of an agent and a string; a dictionary lookup may
  raise. A raise keeps the changes made before it, so every tool returns the session too.
\<close>

datatype error = KeyError string | UnknownTool string

datatype tool_result = Reply string | Handoff agent_ref string

type_synonym tool_outcome = "(error + tool_result) \<times> session"

section \<open>Common tools\<close>

definition update_name :: "string \<Rightarrow> session \<Rightarrow> tool_outcome" where
  "update_name name s =
     (Inr (Reply (''The name is updated to '' @ name)),
      s\<lparr>userdata := (userdata s)\<lparr>customer_name := Some name\<rparr>\<rparr>)"

definition update_phone :: "string \<Rightarrow> session \<Rightarrow> tool_outcome" where
  "update_phone phone s =
     (Inr (Reply (''The phone number is updated to '' @ phone)),
      s\<lparr>userdata := (userdata s)\<lparr>customer_phone := Some phone\<rparr>\<rparr>)"

section \<open>BaseAgent\<close>

text \<open>
  \<open>_transfer_to_agent\<close>: the registry lookup comes before the assignment to
  \<open>prev_agent\<close>, so a missing name raises with the user data untouched.
\<close>

definition transfer_to_agent :: "string \<Rightarrow> session \<Rightarrow> tool_outcome" where
  "transfer_to_agent name s =
     (let current_agent = current_agent s
      in case agents (userdata s) name of
           None \<Rightarrow> (Inl (KeyError name), s)
         | Some next_agent \<Rightarrow>
             (Inr (Handoff next_agent (''Transferring to '' @ name @ ''.'')),
              s\<lparr>userdata := (userdata s)\<lparr>prev_agent := Some current_agent\<rparr>\<rparr>))"

definition to_greeter :: "session \<Rightarrow> tool_outcome" where
  "to_greeter s = transfer_to_agent ''greeter'' s"

text \<open>
  \<open>on_enter\<close> of the agent \<open>self\<close>. \<open>add_message\<close> appends a message with a new id,
  \<open>update_chat_ctx\<close> replaces the agent's context, and \<open>generate_reply\<close> is recorded
  with its \<open>tool_choice\<close>.
\<close>

definition on_enter :: "builtins \<Rightarrow> agent_ref \<Rightarrow> session \<Rightarrow> session" where
  "on_enter env self s =
     (let agent_name = class_name (agent_objs s self);
          ud = userdata s;
          ctx = chat_ctx (agent_objs s self);
          ctx = (case prev_agent ud of
                   None \<Rightarrow> ctx
                 | Some prev \<Rightarrow>
                     (let items_copy = truncate_chat_ctx (chat_ctx (agent_objs s prev)) 6 False True;
                          existing_ids = set (map item_id ctx);
                          items_copy = filter (\<lambda>item. item_id item \<notin> existing_ids) items_copy
                      in ctx @ items_copy));
          ctx = ctx @ [Message (new_item_id env s) System
                         (''Eres el agente '' @ agent_name @
                          ''. Los datos actuales del usuario son '' @ summarize env ud)]
      in s\<lparr>agent_objs := (agent_objs s)(self := (agent_objs s self)\<lparr>chat_ctx := ctx\<rparr>),
           generated_replies := generated_replies s @ [''none'']\<rparr>)"

section \<open>Greeter\<close>

definition to_reservation :: "session \<Rightarrow> tool_outcome" where
  "to_reservation s = transfer_to_agent ''reservation'' s"

definition Greeter_to_takeaway :: "session \<Rightarrow> tool_outcome" where
  "Greeter_to_takeaway s = transfer_to_agent ''takeaway'' s"

section \<open>Reservation\<close>

definition update_reservation_time :: "string \<Rightarrow> session \<Rightarrow> tool_outcome" where
  "update_reservation_time time s =
     (Inr (Reply (''The reservation time is updated to '' @ time)),
      s\<lparr>userdata := (userdata s)\<lparr>reservation_time := Some time\<rparr>\<rparr>)"

definition confirm_reservation :: "session \<Rightarrow> tool_outcome" where
  "confirm_reservation s =
     (let ud = userdata s
      in if \<not> truthy_str (customer_name ud) \<or> \<not> truthy_str (customer_phone ud)
         then (Inr (Reply ''Please provide your name and phone number first.''), s)
         else if \<not> truthy_str (reservation_time ud)
         then (Inr (Reply ''Please provide reservation time first.''), s)
         else transfer_to_agent ''greeter'' s)"

section \<open>Takeaway\<close>

definition update_order :: "builtins \<Rightarrow> string list \<Rightarrow> session \<Rightarrow> tool_outcome" where
  "update_order env items s =
     (Inr (Reply (''The order is updated to '' @ str_of_list env items)),
      s\<lparr>userdata := (userdata s)\<lparr>order := items\<rparr>\<rparr>)"

definition to_checkout :: "session \<Rightarrow> tool_outcome" where
  "to_checkout s =
     (let ud = userdata s
      in if order ud = []
         then (Inr (Reply ''No takeaway order found. Please make an order first.''), s)
         else transfer_to_agent ''checkout'' s)"

section \<open>Checkout\<close>

definition confirm_expense :: "builtins \<Rightarrow> real \<Rightarrow> session \<Rightarrow> tool_outcome" where
  "confirm_expense env e s =
     (Inr (Reply (''The expense is confirmed to be '' @ str_of_float env e)),
      s\<lparr>userdata := (userdata s)\<lparr>expense := Some e\<rparr>\<rparr>)"

definition update_credit_card :: "string \<Rightarrow> string \<Rightarrow> string \<Rightarrow> session \<Rightarrow> tool_outcome" where
  "update_credit_card number expiry cvv s =
     (Inr (Reply (''The credit card number is updated to '' @ number)),
      s\<lparr>userdata := (userdata s)
           \<lparr>customer_credit_card := Some number,
            customer_credit_card_expiry := Some expiry,
            customer_credit_card_cvv := Some cvv\<rparr>\<rparr>)"

text \<open>\<open>checked_out\<close> is assigned before \<open>to_greeter\<close> is called.\<close>

definition confirm_checkout :: "session \<Rightarrow> tool_outcome" where
  "confirm_checkout s =
     (let ud = userdata s
      in if \<not> truthy_float (expense ud)
         then (Inr (Reply ''Please confirm the expense first.''), s)
         else if \<not> truthy_str (customer_credit_card ud)
                 \<or> \<not> truthy_str (customer_credit_card_expiry ud)
                 \<or> \<not> truthy_str (customer_credit_card_cvv ud)
         then (Inr (Reply ''Please provide the credit card information first.''), s)
         else to_greeter (s\<lparr>userdata := ud\<lparr>checked_out := True\<rparr>\<rparr>))"

definition Checkout_to_takeaway :: "session \<Rightarrow> tool_outcome" where
  "Checkout_to_takeaway s = transfer_to_agent ''takeaway'' s"

section \<open>Tool tables and tool execution\<close>

text \<open>
  A tool call as the model issues it: the name of the tool and its arguments (the run
  context is the session).
\<close>

datatype tool_call =
    Call_update_name string
  | Call_update_phone string
  | Call_to_greeter
  | Call_to_reservation
  | Call_to_takeaway
  | Call_update_reservation_time string
  | Call_confirm_reservation
  | Call_update_order "string list"
  | Call_to_checkout
  | Call_confirm_expense real
  | Call_update_credit_card string string string
  | Call_confirm_checkout

fun tool_name :: "tool_call \<Rightarrow> string" where
  "tool_name (Call_update_name name) = ''update_name''"
| "tool_name (Call_update_phone phone) = ''update_phone''"
| "tool_name Call_to_greeter = ''to_greeter''"
| "tool_name Call_to_reservation = ''to_reservation''"
| "tool_name Call_to_takeaway = ''to_takeaway''"
| "tool_name (Call_update_reservation_time time) = ''update_reservation_time''"
| "tool_name Call_confirm_reservation = ''confirm_reservation''"
| "tool_name (Call_update_order items) = ''update_order''"
| "tool_name Call_to_checkout = ''to_checkout''"
| "tool_name (Call_confirm_expense e) = ''confirm_expense''"
| "tool_name (Call_update_credit_card number expiry cvv) = ''update_credit_card''"
| "tool_name Call_confirm_checkout = ''confirm_checkout''"

text \<open>
  The tools of each agent class: those passed as \<open>tools=[...]\<close> to the constructor,
  then the methods of the class decorated with \<open>function_tool\<close>.
\<close>

definition agent_tools :: "string \<Rightarrow> string list" where
  "agent_tools cls =
     (if cls = ''Greeter'' then [''to_reservation'', ''to_takeaway'']
      else if cls = ''Reservation'' then
        [''update_name'', ''update_phone'', ''to_greeter'',
         ''update_reservation_time'', ''confirm_reservation'']
      else if cls = ''Takeaway'' then [''to_greeter'', ''update_order'', ''to_checkout'']
      else if cls = ''Checkout'' then
        [''update_name'', ''update_phone'', ''to_greeter'', ''confirm_expense'',
         ''update_credit_card'', ''confirm_checkout'', ''to_takeaway'']
      else [])"

text \<open>
  Modelled from the spec: the tool dispatcher of the agent framework, which is not part of
  the sources (section 4.4 of the specification). A call is looked up by name among the
  tools of the current agent; a name the current agent does not declare is an error and
  runs nothing.
\<close>

definition call_tool :: "builtins \<Rightarrow> tool_call \<Rightarrow> session \<Rightarrow> tool_outcome" where
  "call_tool env c s =
     (let cls = class_name (agent_objs s (current_agent s))
      in if tool_name c \<notin> set (agent_tools cls) then (Inl (UnknownTool (tool_name c)), s)
         else case c of
             Call_update_name name \<Rightarrow> update_name name s
           | Call_update_phone phone \<Rightarrow> update_phone phone s
           | Call_to_greeter \<Rightarrow> to_greeter s
           | Call_to_reservation \<Rightarrow> to_reservation s
           | Call_to_takeaway \<Rightarrow>
               (if cls = ''Greeter'' then Greeter_to_takeaway s else Checkout_to_takeaway s)
           | Call_update_reservation_time time \<Rightarrow> update_reservation_time time s
           | Call_confirm_reservation \<Rightarrow> confirm_reservation s
           | Call_update_order items \<Rightarrow> update_order env items s
           | Call_to_checkout \<Rightarrow> to_checkout s
           | Call_confirm_expense e \<Rightarrow> confirm_expense env e s
           | Call_update_credit_card number expiry cvv \<Rightarrow> update_credit_card number expiry cvv s
           | Call_confirm_checkout \<Rightarrow> confirm_checkout s)"

text \<open>
  Modelled from the spec: what the framework does with the result of a tool (section 4.4).
  A pair of an agent and a message makes that agent the current one and runs its
  \<open>on_enter\<close>; a string or a raise leaves the current agent as it is. The assignment to
  \<open>prev_agent\<close> is the source's own (\<open>_transfer_to_agent\<close>) and is not repeated here.
\<close>

definition apply_outcome :: "builtins \<Rightarrow> tool_outcome \<Rightarrow> session" where
  "apply_outcome env out =
     (case out of
        (Inr (Handoff target msg), s) \<Rightarrow> on_enter env target (s\<lparr>current_agent := target\<rparr>)
      | (Inr (Reply msg), s) \<Rightarrow> s
      | (Inl e, s) \<Rightarrow> s)"

definition execute_tool :: "builtins \<Rightarrow> tool_call \<Rightarrow> session \<Rightarrow> session" where
  "execute_tool env c s = apply_outcome env (call_tool env c s)"

fun run_tools :: "builtins \<Rightarrow> tool_call list \<Rightarrow> session \<Rightarrow> session" where
  "run_tools env [] s = s"
| "run_tools env (c # cs) s = run_tools env cs (execute_tool env c s)"

section \<open>entrypoint\<close>

text \<open>
  The session \<open>entrypoint\<close> builds: a fresh \<open>UserData\<close> whose registry holds the four
  agents under their names, each agent with an empty chat context of its own, and the
  session started with the agent registered as greeter, whose \<open>on_enter\<close> runs.
\<close>

definition new_agent :: "string \<Rightarrow> agent" where
  "new_agent cls = \<lparr>class_name = cls, chat_ctx = []\<rparr>"

definition entrypoint :: "builtins \<Rightarrow> session" where
  "entrypoint env =
     (let ud = \<lparr>customer_name = None, customer_phone = None, reservation_time = None,
                order = [], expense = None, customer_credit_card = None,
                customer_credit_card_expiry = None, customer_credit_card_cvv = None,
                checked_out = False,
                agents = [''greeter'' \<mapsto> 0, ''reservation'' \<mapsto> 1,
                          ''takeaway'' \<mapsto> 2, ''checkout'' \<mapsto> 3],
                prev_agent = None\<rparr>;
          objs = (\<lambda>r. new_agent [])
                   (0 := new_agent ''Greeter'', 1 := new_agent ''Reservation'',
                    2 := new_agent ''Takeaway'', 3 := new_agent ''Checkout'')
      in on_enter env 0
           \<lparr>userdata = ud, current_agent = 0, agent_objs = objs, generated_replies = []\<rparr>)"

text \<open>Concrete builtins, to run the definitions on examples.\<close>

definition example_builtins :: builtins where
  "example_builtins =
     \<lparr>summarize = (\<lambda>ud. case customer_name ud of None \<Rightarrow> ''{}'' | Some n \<Rightarrow> ''customer_name: '' @ n),
      str_of_list = (\<lambda>items. concat (map (\<lambda>i. i @ '';'') items)),
      str_of_float = (\<lambda>x. if x < 0 then ''negative'' else ''non-negative''),
      new_item_id = (\<lambda>s. ''item_'' @ replicate (length (generated_replies s)) (CHR ''x''))\<rparr>"

text \<open>The invariant the specification states for the expense field.\<close>

definition expense_nonneg :: "user_data \<Rightarrow> bool" where
  "expense_nonneg ud = (case expense ud of None \<Rightarrow> True | Some x \<Rightarrow> 0 \<le> x)"

section \<open>Example sessions\<close>

text \<open>
  Sessions reached from \<open>entrypoint\<close> by tool calls, each call issued to the agent that
  is current at that point.
\<close>

definition example_run :: "tool_call list \<Rightarrow> session" where
  "example_run cs = run_tools example_builtins cs (entrypoint example_builtins)"

definition takeaway_session :: session where
  "takeaway_session = example_run [Call_to_takeaway]"

definition ordered_session :: session where
  "ordered_session = example_run [Call_to_takeaway, Call_update_order [''Pizza'']]"

definition paid_session :: session where
  "paid_session = example_run
     [Call_to_takeaway, Call_update_order [''Pizza''], Call_to_checkout, Call_confirm_expense 10,
      Call_update_credit_card ''4111111111111111'' ''12/30'' ''123'']"

definition zero_expense_session :: session where
  "zero_expense_session = example_run
     [Call_to_takeaway, Call_update_order [''Pizza''], Call_to_checkout, Call_confirm_expense 0,
      Call_update_credit_card ''4111111111111111'' ''12/30'' ''123'']"

definition negative_expense_session :: session where
  "negative_expense_session = example_run
     [Call_to_takeaway, Call_update_order [''Pizza''], Call_to_checkout,
      Call_confirm_expense (- 1)]"


section \<open>Properties of the truncation\<close>

lemma pop_leading_calls_idem: "pop_leading_calls (pop_leading_calls xs) = pop_leading_calls xs"
  by (induction xs) auto

lemma set_pop_leading_calls: "set (pop_leading_calls xs) \<subseteq> set xs"
  by (induction xs) auto

lemma length_pop_leading_calls: "length (pop_leading_calls xs) \<le> length xs"
  by (induction xs) auto

lemma pop_leading_calls_head:
  "pop_leading_calls xs = y # ys \<Longrightarrow>
     item_type y \<notin> set [''function_call'', ''function_call_output'']"
  by (induction xs) (auto split: if_splits)

text \<open>Only items of the input that pass the filter are ever collected.\<close>

lemma set_collect_items:
  "set (collect_items n ks kf xs acc) \<subseteq> set acc \<union> {x \<in> set xs. valid_item ks kf x}"
proof (induction xs arbitrary: acc)
  case Nil
  then show ?case by simp
next
  case (Cons x xs)
  have "set (collect_items n ks kf xs (acc @ [x]))
          \<subseteq> set (acc @ [x]) \<union> {x \<in> set xs. valid_item ks kf x}"
    by (rule Cons.IH)
  moreover have "set (collect_items n ks kf xs acc)
                   \<subseteq> set acc \<union> {x \<in> set xs. valid_item ks kf x}"
    by (rule Cons.IH)
  ultimately show ?case by (auto simp: Let_def)
qed

text \<open>
  The loop tests the bound after it has appended, so it may return one item more than it
  started with even when the bound was already reached.
\<close>

lemma length_collect_items:
  "int (length (collect_items n ks kf xs acc)) \<le> max (int (length acc) + 1) n"
proof (induction xs arbitrary: acc)
  case Nil
  then show ?case by simp
next
  case (Cons x xs)
  have "int (length (collect_items n ks kf xs (acc @ [x])))
          \<le> max (int (length (acc @ [x])) + 1) n"
    by (rule Cons.IH)
  moreover have "int (length (collect_items n ks kf xs acc)) \<le> max (int (length acc) + 1) n"
    by (rule Cons.IH)
  ultimately show ?case by (auto simp: Let_def)
qed

lemma collect_items_all_valid:
  "\<forall>x \<in> set ys. valid_item ks kf x \<Longrightarrow>
   int (length acc + length ys) \<le> max 1 n \<Longrightarrow>
   collect_items n ks kf ys acc = acc @ ys"
proof (induction ys arbitrary: acc)
  case Nil
  then show ?case by simp
next
  case (Cons y ys)
  show ?case
  proof (cases "n \<le> int (length acc) + 1")
    case True
    have "int (length acc) + 1 + int (length ys) \<le> max 1 n"
      using Cons.prems(2) by simp
    moreover have "max 1 n \<le> int (length acc) + 1" using True by simp
    ultimately have "int (length ys) \<le> 0" by linarith
    then have "ys = []" by simp
    with True Cons.prems show ?thesis by (simp add: Let_def)
  next
    case False
    have "collect_items n ks kf ys (acc @ [y]) = (acc @ [y]) @ ys"
      using Cons.prems by (intro Cons.IH) auto
    with False Cons.prems show ?thesis by (simp add: Let_def)
  qed
qed

lemma truncate_chat_ctx_valid:
  "set (truncate_chat_ctx xs n ks kf) \<subseteq> {x \<in> set xs. valid_item ks kf x}"
proof -
  let ?c = "collect_items n ks kf (rev xs) []"
  have "set (truncate_chat_ctx xs n ks kf) \<subseteq> set ?c"
    unfolding truncate_chat_ctx_def using set_pop_leading_calls [of "rev ?c"] by simp
  moreover have "set ?c \<subseteq> {x \<in> set (rev xs). valid_item ks kf x}"
    using set_collect_items [of n ks kf "rev xs" "[]"] by simp
  ultimately show ?thesis by auto
qed

lemma truncate_chat_ctx_length_max:
  "int (length (truncate_chat_ctx xs n ks kf)) \<le> max 1 n"
proof -
  let ?c = "collect_items n ks kf (rev xs) []"
  have "length (truncate_chat_ctx xs n ks kf) \<le> length ?c"
    unfolding truncate_chat_ctx_def using length_pop_leading_calls [of "rev ?c"] by simp
  moreover have "int (length ?c) \<le> max 1 n"
    using length_collect_items [of n ks kf "rev xs" "[]"] by simp
  ultimately show ?thesis by linarith
qed

text \<open>From a keep-count of one on, the result has at most that many items.\<close>

lemma truncate_chat_ctx_length:
  "1 \<le> n \<Longrightarrow> int (length (truncate_chat_ctx xs n ks kf)) \<le> n"
  using truncate_chat_ctx_length_max [of xs n ks kf] by simp

text \<open>For every keep-count, the result does not start with a function call or its output.\<close>

lemma truncate_chat_ctx_head:
  "truncate_chat_ctx xs n ks kf = y # ys \<Longrightarrow>
     item_type y \<notin> set [''function_call'', ''function_call_output'']"
  unfolding truncate_chat_ctx_def by (rule pop_leading_calls_head)

text \<open>
  A list of items that all pass the filter, that is within the bound and that does not
  start with a function call is returned as it is.
\<close>

lemma truncate_chat_ctx_fixed:
  assumes "\<forall>x \<in> set ys. valid_item ks kf x"
    and "int (length ys) \<le> max 1 n"
    and "pop_leading_calls ys = ys"
  shows "truncate_chat_ctx ys n ks kf = ys"
proof -
  have "collect_items n ks kf (rev ys) [] = [] @ rev ys"
    using assms(1,2) by (intro collect_items_all_valid) auto
  then show ?thesis using assms(3) by (simp add: truncate_chat_ctx_def)
qed

text \<open>
  C8. Truncating the result of a truncation again, with the same keep-count and the same
  flags, gives that result back: for every list of items, every keep-count (zero and
  negative ones too) and both values of each flag.
\<close>

theorem truncate_chat_ctx_idempotent:
  "truncate_chat_ctx (truncate_chat_ctx items n ks kf) n ks kf = truncate_chat_ctx items n ks kf"
proof (rule truncate_chat_ctx_fixed)
  show "\<forall>x \<in> set (truncate_chat_ctx items n ks kf). valid_item ks kf x"
    using truncate_chat_ctx_valid [of items n ks kf] by blast
  show "int (length (truncate_chat_ctx items n ks kf)) \<le> max 1 n"
    by (rule truncate_chat_ctx_length_max)
  show "pop_leading_calls (truncate_chat_ctx items n ks kf) = truncate_chat_ctx items n ks kf"
    by (simp add: truncate_chat_ctx_def pop_leading_calls_idem)
qed

theorem truncate_chat_ctx_idempotent_witness:
  "truncate_chat_ctx
     (truncate_chat_ctx
        [Message ''m0'' System ''persona'', Message ''m1'' User ''hola'',
         FunctionCall ''f1'' ''update_name'' ''Ana'', FunctionCallOutput ''o1'' ''f1'' ''ok'',
         Message ''m2'' Assistant ''gracias'']
        4 False True)
     4 False True
   = [Message ''m1'' User ''hola'', FunctionCall ''f1'' ''update_name'' ''Ana'',
      FunctionCallOutput ''o1'' ''f1'' ''ok'', Message ''m2'' Assistant ''gracias'']"
proof -
  have "truncate_chat_ctx
          [Message ''m0'' System ''persona'', Message ''m1'' User ''hola'',
           FunctionCall ''f1'' ''update_name'' ''Ana'', FunctionCallOutput ''o1'' ''f1'' ''ok'',
           Message ''m2'' Assistant ''gracias'']
          4 False True
        = [Message ''m1'' User ''hola'', FunctionCall ''f1'' ''update_name'' ''Ana'',
           FunctionCallOutput ''o1'' ''f1'' ''ok'', Message ''m2'' Assistant ''gracias'']"
    by (simp add: truncate_chat_ctx_def valid_item_def)
  then show ?thesis
    using truncate_chat_ctx_idempotent
      [of "[Message ''m0'' System ''persona'', Message ''m1'' User ''hola'',
            FunctionCall ''f1'' ''update_name'' ''Ana'', FunctionCallOutput ''o1'' ''f1'' ''ok'',
            Message ''m2'' Assistant ''gracias'']"
          4 False True]
    by simp
qed

text \<open>
  C3. With a keep-count of 0 the loop still appends the last item before it tests the
  bound: a single user message comes back whole, one item where at most zero were asked
  for. (From a keep-count of 1 on the bound holds, \<open>truncate_chat_ctx_length\<close>; the result
  never starts with a function call, \<open>truncate_chat_ctx_head\<close>.)
\<close>

theorem truncate_chat_ctx_zero_keeps_one:
  "truncate_chat_ctx [Message ''m1'' User ''hola''] 0 False False = [Message ''m1'' User ''hola'']
   \<and> \<not> int (length (truncate_chat_ctx [Message ''m1'' User ''hola''] 0 False False)) \<le> 0"
  by (simp add: truncate_chat_ctx_def valid_item_def)

text \<open>
  C2, as stated, fails: with every parameter at its default, a function call and its
  output in the middle of the history are dropped.
\<close>

theorem truncate_default_drops_function_calls:
  "truncate_chat_ctx_default
     [Message ''m1'' User ''hola'', FunctionCall ''f1'' ''update_name'' ''Ana'',
      FunctionCallOutput ''o1'' ''f1'' ''ok'', Message ''m2'' Assistant ''gracias'']
   = [Message ''m1'' User ''hola'', Message ''m2'' Assistant ''gracias'']
   \<and> FunctionCall ''f1'' ''update_name'' ''Ana'' \<notin> set (truncate_chat_ctx_default
     [Message ''m1'' User ''hola'', FunctionCall ''f1'' ''update_name'' ''Ana'',
      FunctionCallOutput ''o1'' ''f1'' ''ok'', Message ''m2'' Assistant ''gracias''])
   \<and> FunctionCallOutput ''o1'' ''f1'' ''ok'' \<notin> set (truncate_chat_ctx_default
     [Message ''m1'' User ''hola'', FunctionCall ''f1'' ''update_name'' ''Ana'',
      FunctionCallOutput ''o1'' ''f1'' ''ok'', Message ''m2'' Assistant ''gracias''])"
  by (simp add: truncate_chat_ctx_default_def truncate_chat_ctx_def valid_item_def)

lemma valid_item_default:
  "valid_item False False x \<longleftrightarrow> item_type x = ''message'' \<and> item_role x \<noteq> Some System"
  by (cases x) (auto simp: valid_item_def)

text \<open>
  C2, amended. With every parameter at its default (both flags false), every item of the
  result is an item of the input that is a message and not a system message: function
  calls and their outputs are dropped, as system messages are.
\<close>

theorem truncate_default_only_messages:
  "\<forall>x \<in> set (truncate_chat_ctx_default items).
     x \<in> set items \<and> item_type x = ''message'' \<and> item_role x \<noteq> Some System"
  using truncate_chat_ctx_valid [of items 6 False False]
  by (auto simp: truncate_chat_ctx_default_def valid_item_default)

theorem truncate_default_only_messages_witness:
  "Message ''m2'' Assistant ''gracias'' \<in> set (truncate_chat_ctx_default
     [Message ''m0'' System ''persona'', FunctionCall ''f1'' ''update_name'' ''Ana'',
      FunctionCallOutput ''o1'' ''f1'' ''ok'', Message ''m2'' Assistant ''gracias''])
   \<and> item_type (Message ''m2'' Assistant ''gracias'') = ''message''
   \<and> item_role (Message ''m2'' Assistant ''gracias'') \<noteq> Some System"
proof -
  have "Message ''m2'' Assistant ''gracias'' \<in> set (truncate_chat_ctx_default
     [Message ''m0'' System ''persona'', FunctionCall ''f1'' ''update_name'' ''Ana'',
      FunctionCallOutput ''o1'' ''f1'' ''ok'', Message ''m2'' Assistant ''gracias''])"
    by (simp add: truncate_chat_ctx_default_def truncate_chat_ctx_def valid_item_def)
  then show ?thesis
    using truncate_default_only_messages
      [of "[Message ''m0'' System ''persona'', FunctionCall ''f1'' ''update_name'' ''Ana'',
            FunctionCallOutput ''o1'' ''f1'' ''ok'', Message ''m2'' Assistant ''gracias'']"]
    by blast
qed

section \<open>Properties of the tools and of the handoff\<close>

lemmas tool_defs = update_name_def update_phone_def transfer_to_agent_def to_greeter_def
  to_reservation_def Greeter_to_takeaway_def update_reservation_time_def confirm_reservation_def
  update_order_def to_checkout_def confirm_expense_def update_credit_card_def
  confirm_checkout_def Checkout_to_takeaway_def

lemmas run_defs = example_run_def call_tool_def apply_outcome_def execute_tool_def on_enter_def
  entrypoint_def example_builtins_def new_agent_def agent_tools_def truncate_chat_ctx_def
  valid_item_def truthy_str_def truthy_float_def expense_nonneg_def

lemmas ex_defs = takeaway_session_def ordered_session_def paid_session_def
  zero_expense_session_def negative_expense_session_def

lemma on_enter_userdata [simp]: "userdata (on_enter env a s) = userdata s"
  by (simp add: on_enter_def Let_def)

lemma on_enter_current_agent [simp]: "current_agent (on_enter env a s) = current_agent s"
  by (simp add: on_enter_def Let_def)

lemma on_enter_class_name [simp]:
  "class_name (agent_objs (on_enter env a s) b) = class_name (agent_objs s b)"
  by (simp add: on_enter_def Let_def)

text \<open>
  C1, amended. In a session whose registry holds an agent under \<open>greeter\<close>,
  \<open>confirm_checkout\<close> hands off to that agent exactly when the expense is set and not
  zero and each of the three card fields is set and not the empty string (Python's truth
  test, not a test for \<open>None\<close>). In that case \<open>checked_out\<close> is true afterwards,
  \<open>prev_agent\<close> is the agent that was current and the greeter becomes current. In every
  other case the tool returns one of its two informational strings and the session,
  \<open>checked_out\<close> and the current agent included, is unchanged.
\<close>

theorem confirm_checkout_guard:
  assumes "agents (userdata s) ''greeter'' = Some g"
  shows "if truthy_float (expense (userdata s))
            \<and> truthy_str (customer_credit_card (userdata s))
            \<and> truthy_str (customer_credit_card_expiry (userdata s))
            \<and> truthy_str (customer_credit_card_cvv (userdata s))
         then fst (confirm_checkout s) = Inr (Handoff g ''Transferring to greeter.'')
            \<and> checked_out (userdata (apply_outcome env (confirm_checkout s)))
            \<and> prev_agent (userdata (apply_outcome env (confirm_checkout s))) = Some (current_agent s)
            \<and> current_agent (apply_outcome env (confirm_checkout s)) = g
         else (fst (confirm_checkout s) = Inr (Reply ''Please confirm the expense first.'')
               \<or> fst (confirm_checkout s) = Inr (Reply ''Please provide the credit card information first.''))
            \<and> snd (confirm_checkout s) = s
            \<and> apply_outcome env (confirm_checkout s) = s"
  using assms
  by (simp add: confirm_checkout_def to_greeter_def transfer_to_agent_def apply_outcome_def Let_def)

theorem confirm_checkout_guard_witness:
  "agents (userdata paid_session) ''greeter'' = Some 0
   \<and> fst (confirm_checkout paid_session) = Inr (Handoff 0 ''Transferring to greeter.'')
   \<and> checked_out (userdata (apply_outcome example_builtins (confirm_checkout paid_session)))
   \<and> prev_agent (userdata (apply_outcome example_builtins (confirm_checkout paid_session))) = Some 3
   \<and> current_agent (apply_outcome example_builtins (confirm_checkout paid_session)) = 0"
proof -
  have g: "agents (userdata paid_session) ''greeter'' = Some 0"
    by (simp add: ex_defs tool_defs run_defs Let_def)
  have c: "current_agent paid_session = 3"
    by (simp add: ex_defs tool_defs run_defs Let_def)
  have t: "truthy_float (expense (userdata paid_session))
            \<and> truthy_str (customer_credit_card (userdata paid_session))
            \<and> truthy_str (customer_credit_card_expiry (userdata paid_session))
            \<and> truthy_str (customer_credit_card_cvv (userdata paid_session))"
    by (simp add: ex_defs tool_defs run_defs Let_def)
  show ?thesis
    using confirm_checkout_guard [OF g, of example_builtins] g c t by simp
qed

text \<open>
  C1, as stated, fails: after \<open>confirm_expense(0.0)\<close> and a full credit card the expense
  and the three card fields are all set, and \<open>confirm_checkout\<close> still answers with a
  string; \<open>checked_out\<close> stays false and the Checkout agent stays current.
\<close>

theorem confirm_checkout_zero_expense:
  "expense (userdata zero_expense_session) = Some 0
   \<and> customer_credit_card (userdata zero_expense_session) = Some ''4111111111111111''
   \<and> customer_credit_card_expiry (userdata zero_expense_session) = Some ''12/30''
   \<and> customer_credit_card_cvv (userdata zero_expense_session) = Some ''123''
   \<and> agents (userdata zero_expense_session) ''greeter'' = Some 0
   \<and> fst (confirm_checkout zero_expense_session) = Inr (Reply ''Please confirm the expense first.'')
   \<and> \<not> checked_out (userdata (execute_tool example_builtins Call_confirm_checkout zero_expense_session))
   \<and> current_agent (execute_tool example_builtins Call_confirm_checkout zero_expense_session) = 3
   \<and> class_name (agent_objs zero_expense_session 3) = ''Checkout''"
  by (simp add: ex_defs tool_defs run_defs Let_def)

text \<open>
  C4. Every tool call, in every session, ends in one of two ways. If the tool returns a
  pair (a handoff), \<open>prev_agent\<close> is the agent that was current before the call and the
  current agent is the target, which the registry holds under some name. If it returns a
  string, or raises, or is not a tool of the current agent, \<open>prev_agent\<close> and the current
  agent are both as before.
\<close>

theorem handoff_all_or_nothing:
  "case fst (call_tool env c s) of
     Inr (Handoff target msg) \<Rightarrow>
       prev_agent (userdata (execute_tool env c s)) = Some (current_agent s)
       \<and> current_agent (execute_tool env c s) = target
       \<and> (\<exists>name. agents (userdata s) name = Some target)
   | Inr (Reply msg) \<Rightarrow>
       prev_agent (userdata (execute_tool env c s)) = prev_agent (userdata s)
       \<and> current_agent (execute_tool env c s) = current_agent s
   | Inl e \<Rightarrow>
       prev_agent (userdata (execute_tool env c s)) = prev_agent (userdata s)
       \<and> current_agent (execute_tool env c s) = current_agent s"
proof -
  have tr: "\<And>name s. case fst (transfer_to_agent name s) of
     Inr (Handoff target msg) \<Rightarrow>
       prev_agent (userdata (apply_outcome env (transfer_to_agent name s))) = Some (current_agent s)
       \<and> current_agent (apply_outcome env (transfer_to_agent name s)) = target
       \<and> (\<exists>name. agents (userdata s) name = Some target)
   | Inr (Reply msg) \<Rightarrow>
       prev_agent (userdata (apply_outcome env (transfer_to_agent name s))) = prev_agent (userdata s)
       \<and> current_agent (apply_outcome env (transfer_to_agent name s)) = current_agent s
   | Inl e \<Rightarrow>
       prev_agent (userdata (apply_outcome env (transfer_to_agent name s))) = prev_agent (userdata s)
       \<and> current_agent (apply_outcome env (transfer_to_agent name s)) = current_agent s"
    by (auto simp: transfer_to_agent_def apply_outcome_def Let_def split: option.splits)
  show ?thesis
  proof (cases "tool_name c \<in> set (agent_tools (class_name (agent_objs s (current_agent s))))")
    case False
    then show ?thesis by (simp add: call_tool_def execute_tool_def apply_outcome_def Let_def)
  next
    case True
    show ?thesis
    proof (cases c)
      case Call_confirm_checkout
      then show ?thesis
        using True tr [of "''greeter''" "s\<lparr>userdata := (userdata s)\<lparr>checked_out := True\<rparr>\<rparr>"]
        by (auto simp: call_tool_def execute_tool_def confirm_checkout_def to_greeter_def
              apply_outcome_def Let_def split: sum.splits tool_result.splits)
    qed (use True tr [of _ s] in \<open>auto simp: call_tool_def execute_tool_def tool_defs
              apply_outcome_def Let_def split: sum.splits tool_result.splits option.splits\<close>)
  qed
qed


theorem handoff_all_or_nothing_witness:
  "fst (call_tool example_builtins Call_to_checkout ordered_session)
     = Inr (Handoff 3 ''Transferring to checkout.'')
   \<and> prev_agent (userdata (execute_tool example_builtins Call_to_checkout ordered_session)) = Some 2
   \<and> current_agent (execute_tool example_builtins Call_to_checkout ordered_session) = 3
   \<and> fst (call_tool example_builtins Call_to_checkout takeaway_session)
     = Inr (Reply ''No takeaway order found. Please make an order first.'')
   \<and> prev_agent (userdata (execute_tool example_builtins Call_to_checkout takeaway_session)) = Some 0
   \<and> current_agent (execute_tool example_builtins Call_to_checkout takeaway_session) = 2"
proof -
  have a: "fst (call_tool example_builtins Call_to_checkout ordered_session)
             = Inr (Handoff 3 ''Transferring to checkout.'')"
    by (simp add: ex_defs tool_defs run_defs Let_def)
  have b: "current_agent ordered_session = 2"
    by (simp add: ex_defs tool_defs run_defs Let_def)
  have c: "fst (call_tool example_builtins Call_to_checkout takeaway_session)
             = Inr (Reply ''No takeaway order found. Please make an order first.'')"
    by (simp add: ex_defs tool_defs run_defs Let_def)
  have d: "current_agent takeaway_session = 2 \<and> prev_agent (userdata takeaway_session) = Some 0"
    by (simp add: ex_defs tool_defs run_defs Let_def)
  show ?thesis
    using handoff_all_or_nothing [of example_builtins Call_to_checkout ordered_session]
      handoff_all_or_nothing [of example_builtins Call_to_checkout takeaway_session]
      a b c d
    by simp
qed

text \<open>
  C6. With an empty order \<open>to_checkout\<close> returns exactly the string
  "No takeaway order found. Please make an order first." and the session is unchanged
  (no transition). With a non-empty order, and the agent registered under \<open>checkout\<close>,
  it hands off to that agent, which becomes current, and \<open>prev_agent\<close> is the agent
  that was current.
\<close>

theorem to_checkout_guard:
  "(order (userdata s) = [] \<longrightarrow>
      to_checkout s = (Inr (Reply ''No takeaway order found. Please make an order first.''), s)
      \<and> apply_outcome env (to_checkout s) = s)
   \<and> (order (userdata s) \<noteq> [] \<and> agents (userdata s) ''checkout'' = Some target \<longrightarrow>
      fst (to_checkout s) = Inr (Handoff target ''Transferring to checkout.'')
      \<and> prev_agent (userdata (apply_outcome env (to_checkout s))) = Some (current_agent s)
      \<and> current_agent (apply_outcome env (to_checkout s)) = target)"
  by (simp add: to_checkout_def transfer_to_agent_def apply_outcome_def Let_def)

theorem to_checkout_guard_witness:
  "order (userdata takeaway_session) = []
   \<and> class_name (agent_objs takeaway_session (current_agent takeaway_session)) = ''Takeaway''
   \<and> to_checkout takeaway_session
       = (Inr (Reply ''No takeaway order found. Please make an order first.''), takeaway_session)
   \<and> apply_outcome example_builtins (to_checkout takeaway_session) = takeaway_session
   \<and> order (userdata ordered_session) \<noteq> []
   \<and> agents (userdata ordered_session) ''checkout'' = Some 3
   \<and> class_name (agent_objs ordered_session 3) = ''Checkout''
   \<and> fst (to_checkout ordered_session) = Inr (Handoff 3 ''Transferring to checkout.'')
   \<and> current_agent (apply_outcome example_builtins (to_checkout ordered_session)) = 3"
proof -
  have a: "order (userdata takeaway_session) = []
     \<and> class_name (agent_objs takeaway_session (current_agent takeaway_session)) = ''Takeaway''"
    by (simp add: ex_defs tool_defs run_defs Let_def)
  have b: "order (userdata ordered_session) \<noteq> []
     \<and> agents (userdata ordered_session) ''checkout'' = Some 3
     \<and> class_name (agent_objs ordered_session 3) = ''Checkout''"
    by (simp add: ex_defs tool_defs run_defs Let_def)
  show ?thesis
    using to_checkout_guard [of takeaway_session example_builtins 3]
      to_checkout_guard [of ordered_session example_builtins 3] a b
    by (simp add: apply_outcome_def)
qed

text \<open>
  C9. \<open>update_order\<close> returns a string, sets the order to its argument (the old order is
  gone) and changes nothing else: putting the old order back gives the old session.
  \<open>update_credit_card\<close> returns a string, sets the three card fields to its arguments
  and changes nothing else: putting the three old values back gives the old session.
  Neither result makes the framework switch agents. The other tools that set a field
  (\<open>update_name\<close>, \<open>update_phone\<close>, \<open>update_reservation_time\<close>, \<open>confirm_expense\<close>)
  set that field to their argument and change nothing else, in the same sense.
\<close>

theorem field_updates_frame:
  "fst (update_order env items s) = Inr (Reply (''The order is updated to '' @ str_of_list env items))
   \<and> order (userdata (snd (update_order env items s))) = items
   \<and> (snd (update_order env items s))
        \<lparr>userdata := (userdata (snd (update_order env items s)))\<lparr>order := order (userdata s)\<rparr>\<rparr> = s
   \<and> apply_outcome env (update_order env items s) = snd (update_order env items s)
   \<and> fst (update_credit_card number expiry cvv s)
       = Inr (Reply (''The credit card number is updated to '' @ number))
   \<and> customer_credit_card (userdata (snd (update_credit_card number expiry cvv s))) = Some number
   \<and> customer_credit_card_expiry (userdata (snd (update_credit_card number expiry cvv s))) = Some expiry
   \<and> customer_credit_card_cvv (userdata (snd (update_credit_card number expiry cvv s))) = Some cvv
   \<and> (snd (update_credit_card number expiry cvv s))
        \<lparr>userdata := (userdata (snd (update_credit_card number expiry cvv s)))
           \<lparr>customer_credit_card := customer_credit_card (userdata s),
            customer_credit_card_expiry := customer_credit_card_expiry (userdata s),
            customer_credit_card_cvv := customer_credit_card_cvv (userdata s)\<rparr>\<rparr> = s
   \<and> apply_outcome env (update_credit_card number expiry cvv s)
       = snd (update_credit_card number expiry cvv s)
   \<and> customer_name (userdata (snd (update_name name s))) = Some name
   \<and> (snd (update_name name s))
        \<lparr>userdata := (userdata (snd (update_name name s)))
           \<lparr>customer_name := customer_name (userdata s)\<rparr>\<rparr> = s
   \<and> customer_phone (userdata (snd (update_phone phone s))) = Some phone
   \<and> (snd (update_phone phone s))
        \<lparr>userdata := (userdata (snd (update_phone phone s)))
           \<lparr>customer_phone := customer_phone (userdata s)\<rparr>\<rparr> = s
   \<and> reservation_time (userdata (snd (update_reservation_time time s))) = Some time
   \<and> (snd (update_reservation_time time s))
        \<lparr>userdata := (userdata (snd (update_reservation_time time s)))
           \<lparr>reservation_time := reservation_time (userdata s)\<rparr>\<rparr> = s
   \<and> expense (userdata (snd (confirm_expense env e s))) = Some e
   \<and> (snd (confirm_expense env e s))
        \<lparr>userdata := (userdata (snd (confirm_expense env e s)))
           \<lparr>expense := expense (userdata s)\<rparr>\<rparr> = s"
  by (simp add: update_order_def update_credit_card_def apply_outcome_def update_name_def
        update_phone_def update_reservation_time_def confirm_expense_def)

theorem field_updates_frame_witness:
  "order (userdata ordered_session) = [''Pizza'']
   \<and> order (userdata (snd (update_order example_builtins [''Helado'', ''Cafe''] ordered_session)))
       = [''Helado'', ''Cafe'']
   \<and> prev_agent (userdata (snd (update_order example_builtins [''Helado'', ''Cafe''] ordered_session)))
       = Some 0"
proof -
  have a: "order (userdata ordered_session) = [''Pizza'']
           \<and> prev_agent (userdata ordered_session) = Some 0"
    by (simp add: ex_defs tool_defs run_defs Let_def)
  show ?thesis
    using field_updates_frame [of example_builtins "[''Helado'', ''Cafe'']" ordered_session] a
    by (simp add: update_order_def)
qed

lemma execute_tool_expense:
  "expense (userdata (execute_tool env c s)) = expense (userdata s)
   \<or> (\<exists>e. c = Call_confirm_expense e \<and> expense (userdata (execute_tool env c s)) = Some e)"
  by (cases c)
     (auto simp: call_tool_def execute_tool_def tool_defs apply_outcome_def Let_def
           split: option.splits)

lemma run_tools_expense_nonneg:
  "expense_nonneg (userdata s) \<Longrightarrow> \<forall>e. Call_confirm_expense e \<in> set cs \<longrightarrow> 0 \<le> e \<Longrightarrow>
   expense_nonneg (userdata (run_tools env cs s))"
proof (induction cs arbitrary: s)
  case Nil
  then show ?case by simp
next
  case (Cons c cs)
  have "expense_nonneg (userdata (execute_tool env c s))"
    using execute_tool_expense [of env c s] Cons.prems
    by (auto simp: expense_nonneg_def)
  then show ?case using Cons by simp
qed

text \<open>
  C7, amended. \<open>confirm_expense\<close> stores its argument as it is, with no check. In every
  session reached from \<open>entrypoint\<close> by tool calls whose \<open>confirm_expense\<close> arguments are
  all at least zero, the expense is unset or at least zero.
\<close>

theorem expense_nonneg_reachable:
  "expense (userdata (snd (confirm_expense env x s))) = Some x
   \<and> ((\<forall>e. Call_confirm_expense e \<in> set cs \<longrightarrow> 0 \<le> e) \<longrightarrow>
        expense_nonneg (userdata (run_tools env cs (entrypoint env))))"
proof -
  have "expense_nonneg (userdata (entrypoint env))"
    by (simp add: entrypoint_def expense_nonneg_def Let_def)
  then show ?thesis
    using run_tools_expense_nonneg [of "entrypoint env" cs env]
    by (simp add: confirm_expense_def)
qed

theorem expense_nonneg_reachable_witness:
  "expense (userdata paid_session) = Some 10 \<and> expense_nonneg (userdata paid_session)"
proof -
  have "expense (userdata paid_session) = Some 10"
    by (simp add: ex_defs tool_defs run_defs Let_def)
  moreover have "expense_nonneg (userdata paid_session)"
    unfolding paid_session_def example_run_def
    using expense_nonneg_reachable [of example_builtins 10 paid_session
      "[Call_to_takeaway, Call_update_order [''Pizza''], Call_to_checkout, Call_confirm_expense 10,
        Call_update_credit_card ''4111111111111111'' ''12/30'' ''123'']"]
    by simp
  ultimately show ?thesis by simp
qed

text \<open>
  C7, as stated, fails: \<open>confirm_expense(-1.0)\<close>, issued to the Checkout agent after an
  order was placed, leaves a negative expense in the user data.
\<close>

theorem confirm_expense_negative:
  "expense (userdata negative_expense_session) = Some (- 1)
   \<and> \<not> expense_nonneg (userdata negative_expense_session)"
  by (simp add: ex_defs tool_defs run_defs Let_def)




lemma transfer_to_agent_result:
  "fst (transfer_to_agent name s)
     = (case agents (userdata s) name of
          None \<Rightarrow> Inl (KeyError name)
        | Some a \<Rightarrow> Inr (Handoff a (''Transferring to '' @ name @ ''.'')))"
  by (simp add: transfer_to_agent_def Let_def split: option.splits)

lemma transfer_to_agent_handoff:
  "fst (transfer_to_agent name s) = Inr (Handoff a m) \<Longrightarrow>
     agents (userdata s) name = Some a \<and> m = ''Transferring to '' @ name @ ''.''"
  by (auto simp add: transfer_to_agent_result split: option.splits)

text \<open>
  C10. \<open>_transfer_to_agent\<close> looks the name up in the registry and returns the agent
  found there with the message "Transferring to " + name + "." (a name the registry
  lacks raises). Every tool that hands off does so through it: \<open>to_greeter\<close>,
  \<open>confirm_checkout\<close> and \<open>confirm_reservation\<close> with the name greeter,
  \<open>to_reservation\<close> with reservation, both \<open>to_takeaway\<close> tools with takeaway and
  \<open>to_checkout\<close> with checkout. \<open>to_greeter\<close> is a tool of exactly the Reservation,
  Takeaway and Checkout agents.
\<close>

theorem handoff_target_by_name:
  "fst (transfer_to_agent name s)
     = (case agents (userdata s) name of
          None \<Rightarrow> Inl (KeyError name)
        | Some a \<Rightarrow> Inr (Handoff a (''Transferring to '' @ name @ ''.'')))
   \<and> (fst (to_greeter s) = Inr (Handoff a m) \<longrightarrow>
        agents (userdata s) ''greeter'' = Some a \<and> m = ''Transferring to greeter.'')
   \<and> (fst (confirm_checkout s) = Inr (Handoff a m) \<longrightarrow>
        agents (userdata s) ''greeter'' = Some a \<and> m = ''Transferring to greeter.'')
   \<and> (fst (confirm_reservation s) = Inr (Handoff a m) \<longrightarrow>
        agents (userdata s) ''greeter'' = Some a \<and> m = ''Transferring to greeter.'')
   \<and> (fst (to_reservation s) = Inr (Handoff a m) \<longrightarrow>
        agents (userdata s) ''reservation'' = Some a \<and> m = ''Transferring to reservation.'')
   \<and> (fst (Greeter_to_takeaway s) = Inr (Handoff a m) \<longrightarrow>
        agents (userdata s) ''takeaway'' = Some a \<and> m = ''Transferring to takeaway.'')
   \<and> (fst (Checkout_to_takeaway s) = Inr (Handoff a m) \<longrightarrow>
        agents (userdata s) ''takeaway'' = Some a \<and> m = ''Transferring to takeaway.'')
   \<and> (fst (to_checkout s) = Inr (Handoff a m) \<longrightarrow>
        agents (userdata s) ''checkout'' = Some a \<and> m = ''Transferring to checkout.'')
   \<and> (''to_greeter'' \<in> set (agent_tools cls) \<longleftrightarrow>
        cls = ''Reservation'' \<or> cls = ''Takeaway'' \<or> cls = ''Checkout'')"
proof -
  have g: "fst (to_greeter s) = Inr (Handoff a m) \<longrightarrow>
        agents (userdata s) ''greeter'' = Some a \<and> m = ''Transferring to greeter.''"
    using transfer_to_agent_handoff [of "''greeter''" s a m] by (simp add: to_greeter_def)
  have cc: "fst (confirm_checkout s) = Inr (Handoff a m) \<longrightarrow>
        agents (userdata s) ''greeter'' = Some a \<and> m = ''Transferring to greeter.''"
    using transfer_to_agent_handoff
      [of "''greeter''" "s\<lparr>userdata := (userdata s)\<lparr>checked_out := True\<rparr>\<rparr>" a m]
    by (simp add: confirm_checkout_def to_greeter_def Let_def split: if_splits)
  have cr: "fst (confirm_reservation s) = Inr (Handoff a m) \<longrightarrow>
        agents (userdata s) ''greeter'' = Some a \<and> m = ''Transferring to greeter.''"
    using transfer_to_agent_handoff [of "''greeter''" s a m]
    by (simp add: confirm_reservation_def Let_def split: if_splits)
  have r: "fst (to_reservation s) = Inr (Handoff a m) \<longrightarrow>
        agents (userdata s) ''reservation'' = Some a \<and> m = ''Transferring to reservation.''"
    using transfer_to_agent_handoff [of "''reservation''" s a m] by (simp add: to_reservation_def)
  have gt: "fst (Greeter_to_takeaway s) = Inr (Handoff a m) \<longrightarrow>
        agents (userdata s) ''takeaway'' = Some a \<and> m = ''Transferring to takeaway.''"
    using transfer_to_agent_handoff [of "''takeaway''" s a m]
    by (simp add: Greeter_to_takeaway_def)
  have ct: "fst (Checkout_to_takeaway s) = Inr (Handoff a m) \<longrightarrow>
        agents (userdata s) ''takeaway'' = Some a \<and> m = ''Transferring to takeaway.''"
    using transfer_to_agent_handoff [of "''takeaway''" s a m]
    by (simp add: Checkout_to_takeaway_def)
  have co: "fst (to_checkout s) = Inr (Handoff a m) \<longrightarrow>
        agents (userdata s) ''checkout'' = Some a \<and> m = ''Transferring to checkout.''"
    using transfer_to_agent_handoff [of "''checkout''" s a m]
    by (simp add: to_checkout_def Let_def split: if_splits)
  have tg: "''to_greeter'' \<in> set (agent_tools cls) \<longleftrightarrow>
        cls = ''Reservation'' \<or> cls = ''Takeaway'' \<or> cls = ''Checkout''"
    by (simp add: agent_tools_def)
  note res = transfer_to_agent_result [of name s]
  show ?thesis
    by (intro conjI res g cc cr r gt ct co tg)
qed

theorem handoff_target_by_name_witness:
  "fst (to_greeter takeaway_session) = Inr (Handoff 0 ''Transferring to greeter.'')
   \<and> agents (userdata takeaway_session) ''greeter'' = Some 0"
proof -
  have a: "fst (to_greeter takeaway_session) = Inr (Handoff 0 ''Transferring to greeter.'')"
    by (simp add: ex_defs tool_defs run_defs Let_def)
  have "fst (to_greeter takeaway_session) = Inr (Handoff 0 ''Transferring to greeter.'') \<longrightarrow>
        agents (userdata takeaway_session) ''greeter'' = Some 0
        \<and> ''Transferring to greeter.'' = ''Transferring to greeter.''"
    using handoff_target_by_name
      [of "''greeter''" takeaway_session 0 "''Transferring to greeter.''" "''Takeaway''"]
    by (elim conjE)
  with a show ?thesis by simp
qed

end
